theory Spec2Isabelle
  imports Main
begin

section \<open>Python values used by monitor.py\<close>

text \<open>
  Strings are byte strings (\<open>char list\<close>); identifiers, state keys and messages of the
  program are ASCII except for the arrow in the count-change line, which is written as
  its three UTF-8 bytes.
\<close>

subsection \<open>Exceptions\<close>

text \<open>
  Every exception that can leave \<open>main\<close>:
  \<^item> \<open>RequestException c\<close>: what \<open>requests.get\<close> / \<open>raise_for_status\<close> raised in
    \<open>fetch_html\<close> (the spec's FetchError), \<open>c\<close> naming the cause;
  \<^item> \<open>RaiseNone\<close>: the TypeError of \<open>raise last\<close> when \<open>last\<close> is still \<open>None\<close>;
  \<^item> \<open>JSONDecodeError\<close>: \<open>json.load\<close> on a state file that is not JSON (the spec's
    StateCorruptError);
  \<^item> \<open>AttributeError\<close>: \<open>state.get\<close> on a loaded value that is not a dict;
  \<^item> \<open>ValueError s\<close>: \<open>int(s)\<close> on a string that is not an integer literal;
  \<^item> \<open>NotifyError\<close>: \<open>tg_send\<close> failing (\<open>requests.post\<close> / \<open>raise_for_status\<close>).
\<close>

datatype error =
    RequestException string
  | RaiseNone
  | JSONDecodeError
  | AttributeError
  | ValueError string
  | NotifyError

subsection \<open>\<open>int(s)\<close> on a string\<close>

text \<open>
  Python's \<open>int\<close> on a \<open>str\<close>, base 10: surrounding whitespace is stripped, one sign is
  allowed, then decimal digits, where single underscores may separate digits. Anything
  else raises ValueError (\<open>None\<close> here). Only ASCII digits and ASCII whitespace are
  modelled, and the interpreter's optional limit on the number of digits is taken to be
  off.
\<close>

definition is_digit :: "char \<Rightarrow> bool" where
  "is_digit c = (c \<in> set ''0123456789'')"

definition digit_val :: "char \<Rightarrow> nat" where
  "digit_val c = of_char c - 48"

definition is_space :: "char \<Rightarrow> bool" where
  "is_space c = (c \<in> set [CHR 0x09, CHR 0x0A, CHR 0x0B, CHR 0x0C, CHR 0x0D,
                           CHR 0x1C, CHR 0x1D, CHR 0x1E, CHR 0x1F, CHR 0x20])"

definition strip :: "string \<Rightarrow> string" where
  "strip s = rev (dropWhile is_space (rev (dropWhile is_space s)))"

text \<open>\<open>parse_digits acc cs\<close>: the rest of a literal after at least one digit.\<close>

fun parse_digits :: "nat \<Rightarrow> string \<Rightarrow> nat option" where
  "parse_digits acc [] = Some acc"
| "parse_digits acc [c] = (if is_digit c then Some (10 * acc + digit_val c) else None)"
| "parse_digits acc (c # d # cs) =
     (if is_digit c then parse_digits (10 * acc + digit_val c) (d # cs)
      else if c = CHR ''_'' \<and> is_digit d then parse_digits (10 * acc + digit_val d) cs
      else None)"

fun parse_unsigned :: "string \<Rightarrow> nat option" where
  "parse_unsigned [] = None"
| "parse_unsigned (c # cs) = (if is_digit c then parse_digits (digit_val c) cs else None)"

definition py_int :: "string \<Rightarrow> int option" where
  "py_int s =
     (case strip s of
        [] \<Rightarrow> None
      | c # cs \<Rightarrow>
          if c = CHR ''+'' then map_option int (parse_unsigned cs)
          else if c = CHR ''-'' then map_option (\<lambda>n. - int n) (parse_unsigned cs)
          else map_option int (parse_unsigned (c # cs)))"


subsection \<open>\<open>str(n)\<close> and \<open>sep.join(xs)\<close>\<close>

definition digit_chr :: "nat \<Rightarrow> char" where
  "digit_chr d = ''0123456789'' ! d"

fun str_nat :: "nat \<Rightarrow> string" where
  "str_nat n =
     (if n < 10 then [digit_chr n]
      else str_nat (n div 10) @ [digit_chr (n mod 10)])"

declare str_nat.simps [simp del]

definition str_int :: "int \<Rightarrow> string" where
  "str_int i = (if i < 0 then CHR ''-'' # str_nat (nat (- i)) else str_nat (nat i))"

fun join :: "string \<Rightarrow> string list \<Rightarrow> string" where
  "join sep [] = []"
| "join sep [x] = x"
| "join sep (x # y # ys) = x @ sep @ join sep (y # ys)"

subsection \<open>Sets of strings and \<open>sorted(s, key=int)\<close>\<close>

text \<open>
  A Python set of strings is modelled by a duplicate-free list, one of its iteration
  orders: \<open>set(xs)\<close> is \<open>remdups xs\<close> and \<open>a - b\<close> keeps the elements of \<open>a\<close> that are
  not in \<open>b\<close>. The order only shows in how \<open>sorted\<close> places elements with equal keys.
\<close>

definition set_diff :: "string list \<Rightarrow> string list \<Rightarrow> string list" where
  "set_diff a b = filter (\<lambda>x. x \<notin> set b) a"

text \<open>
  \<open>sorted(xs, key=int)\<close> first computes the key of every element, raising at the first
  element \<open>int\<close> rejects, then sorts stably by the keys.
\<close>

fun int_keys :: "string list \<Rightarrow> error + (int \<times> string) list" where
  "int_keys [] = Inr []"
| "int_keys (x # xs) =
     (case py_int x of
        None \<Rightarrow> Inl (ValueError x)
      | Some k \<Rightarrow> (case int_keys xs of Inl e \<Rightarrow> Inl e | Inr ks \<Rightarrow> Inr ((k, x) # ks)))"

definition py_sorted :: "string list \<Rightarrow> error + string list" where
  "py_sorted xs = (case int_keys xs of Inl e \<Rightarrow> Inl e | Inr ks \<Rightarrow> Inr (map snd (sort_key fst ks)))"

section \<open>The program\<close>

subsection \<open>Effects\<close>

text \<open>
  What a run does to the outside is recorded in order: each \<open>requests.get\<close> of
  \<open>fetch_html\<close>, each \<open>time.sleep\<close>, each \<open>save_state\<close> with the dict written, and each
  \<open>tg_send\<close> with its text (an entry for every call, delivered or not).
\<close>

record state_dict =
  initialized :: "bool option"
  seen_ids :: "string list option"
  last_count :: "int option option"
  last_checked_epoch :: "int option"

text \<open>
  The state is a Python dict read with \<open>state.get(key, default)\<close>: each of the four keys
  the program uses is absent (\<open>None\<close>) or holds a value of the type the program writes
  (\<open>last_count\<close> may hold \<open>null\<close>, the inner \<open>None\<close>). Other keys, which the program
  carries along unread, are left out.
\<close>

datatype event =
    HttpGet
  | Sleep nat
  | SaveState state_dict
  | TgSend string

text \<open>
  What \<open>json.load\<close> makes of the state file: a dict, or some other JSON value (a list, a
  number, ...). The file itself is missing, or is not JSON, or holds a JSON value.
\<close>

datatype loaded = Dict state_dict | NonDict

datatype file_content = NoFile | NotJson | Json loaded

text \<open>
  The outside world of one run: the outcome of the \<open>i\<close>-th \<open>requests.get\<close> (counted from
  0, \<open>Inl\<close> the exception's cause, \<open>Inr\<close> the page text), what the regular expressions
  of \<open>parse_ids_and_count\<close> find in a page (every captured id in order and the count),
  whether Telegram accepts a message, the clock, and the state file.
\<close>

record world =
  responses :: "nat \<Rightarrow> string + string"
  parse_ids_and_count :: "string \<Rightarrow> string list \<times> int option"
  tg_ok :: "string \<Rightarrow> bool"
  clock :: int
  state_file :: file_content

record run =
  trace :: "event list"
  result :: "error + unit"
  file_after :: file_content

subsection \<open>\<open>load_state\<close>\<close>

definition default_state :: state_dict where
  "default_state =
     \<lparr>initialized = Some False, seen_ids = Some [], last_count = Some None,
      last_checked_epoch = None\<rparr>"

definition load_state :: "file_content \<Rightarrow> error + loaded" where
  "load_state f =
     (case f of
        NoFile \<Rightarrow> Inr (Dict default_state)
      | NotJson \<Rightarrow> Inl JSONDecodeError
      | Json v \<Rightarrow> Inr v)"

subsection \<open>\<open>fetch_html\<close>\<close>

text \<open>
  The loop \<open>for i in range(3)\<close>: \<open>fetch_loop get is last_e\<close> runs the remaining
  indices \<open>is\<close> with the current value \<open>last_e\<close> of the variable \<open>last\<close>; it returns at
  the first success, and after the final index hands \<open>last\<close> to \<open>raise\<close>.
\<close>

fun fetch_loop :: "(nat \<Rightarrow> string + string) \<Rightarrow> nat list \<Rightarrow> string option
    \<Rightarrow> event list \<times> (string option + string)" where
  "fetch_loop get [] last_e = ([], Inl last_e)"
| "fetch_loop get (i # is) last_e =
     (case get i of
        Inr text \<Rightarrow> ([HttpGet], Inr text)
      | Inl e \<Rightarrow>
          (case fetch_loop get is (Some e) of
             (tr, r) \<Rightarrow> (HttpGet # Sleep (2 * (i + 1)) # tr, r)))"

definition fetch_html :: "(nat \<Rightarrow> string + string) \<Rightarrow> event list \<times> (error + string)" where
  "fetch_html get =
     (case fetch_loop get [0, 1, 2] None of
        (tr, Inr text) \<Rightarrow> (tr, Inr text)
      | (tr, Inl (Some e)) \<Rightarrow> (tr, Inl (RequestException e))
      | (tr, Inl None) \<Rightarrow> (tr, Inl RaiseNone))"

subsection \<open>Messages\<close>

definition nl :: string where
  "nl = [CHR 0x0A]"

definition arrow :: string where
  "arrow = [CHR 0xE2, CHR 0x86, CHR 0x92]"

definition baseline_msg :: "int option \<Rightarrow> string list \<Rightarrow> string" where
  "baseline_msg count_now ids_now =
     ''CROUS monitor initialized.'' @ nl @ ''Current listings: '' @
     (case count_now of Some c \<Rightarrow> str_int c | None \<Rightarrow> str_nat (length ids_now))"

definition count_part :: "int option \<Rightarrow> int option \<Rightarrow> string list" where
  "count_part count_old count_now =
     (case count_now of
        None \<Rightarrow> []
      | Some n \<Rightarrow>
          (case count_old of
             None \<Rightarrow> []
           | Some old \<Rightarrow>
               if n \<noteq> old
               then [''Result count changed: '' @ str_int old @ '' '' @ arrow @ '' '' @ str_int n]
               else []))"

definition listing_url :: string where
  "listing_url = ''https://trouverunlogement.lescrous.fr/tools/42/accommodations/''"

definition new_part :: "string list \<Rightarrow> string list" where
  "new_part new_ids =
     (if new_ids \<noteq> []
      then [''New listing(s): '' @ str_nat (length new_ids) @ nl @
            join nl (map (\<lambda>i. listing_url @ i) new_ids)]
      else [])"

definition removed_part :: "string list \<Rightarrow> string list" where
  "removed_part removed_ids =
     (if removed_ids \<noteq> []
      then [''Listing(s) disappeared: '' @ str_nat (length removed_ids) @ '' (IDs: '' @
            join '', '' removed_ids @ '')'']
      else [])"

definition update_parts :: "int option \<Rightarrow> int option \<Rightarrow> string list \<Rightarrow> string list \<Rightarrow> string list" where
  "update_parts count_old count_now new_ids removed_ids =
     count_part count_old count_now @ new_part new_ids @ removed_part removed_ids"

definition update_msg :: "string list \<Rightarrow> string" where
  "update_msg parts = ''CROUS update (Aix bounds)'' @ nl @ nl @ join (nl @ nl) parts"

subsection \<open>\<open>main\<close>\<close>

text \<open>Lines 104 and 105: the two differences, each sorted, the added one first.\<close>

definition new_and_removed :: "string list \<Rightarrow> string list \<Rightarrow> error + (string list \<times> string list)" where
  "new_and_removed ids_now ids_old =
     (case py_sorted (set_diff ids_now ids_old) of
        Inl e \<Rightarrow> Inl e
      | Inr new_ids \<Rightarrow>
          (case py_sorted (set_diff ids_old ids_now) of
             Inl e \<Rightarrow> Inl e
           | Inr removed_ids \<Rightarrow> Inr (new_ids, removed_ids)))"

text \<open>Lines 95 and 124: \<open>sorted(ids_now, key=int) if ids_now else []\<close>.\<close>

definition sorted_ids :: "string list \<Rightarrow> error + string list" where
  "sorted_ids ids_now = (if ids_now \<noteq> [] then py_sorted ids_now else Inr [])"

definition stored :: "state_dict \<Rightarrow> string list \<Rightarrow> int option \<Rightarrow> int \<Rightarrow> state_dict" where
  "stored state ids count_now now =
     state\<lparr>seen_ids := Some ids, last_count := Some count_now, last_checked_epoch := Some now\<rparr>"

text \<open>Lines 93 to 102, entered with the events \<open>t\<close> so far.\<close>

definition first_run :: "world \<Rightarrow> event list \<Rightarrow> state_dict \<Rightarrow> string list \<Rightarrow> int option \<Rightarrow> run" where
  "first_run w t state ids_now count_now =
     (case sorted_ids ids_now of
        Inl e \<Rightarrow> \<lparr>trace = t, result = Inl e, file_after = state_file w\<rparr>
      | Inr ids \<Rightarrow>
          (let state' = stored (state\<lparr>initialized := Some True\<rparr>) ids count_now (clock w);
               msg = baseline_msg count_now ids_now
           in \<lparr>trace = t @ [SaveState state', TgSend msg],
               result = (if tg_ok w msg then Inr () else Inl NotifyError),
               file_after = Json (Dict state')\<rparr>))"

text \<open>Lines 104 to 127.\<close>

definition update_run :: "world \<Rightarrow> event list \<Rightarrow> state_dict \<Rightarrow> string list \<Rightarrow> int option
    \<Rightarrow> string list \<Rightarrow> int option \<Rightarrow> run" where
  "update_run w t state ids_now count_now ids_old count_old =
     (case new_and_removed ids_now ids_old of
        Inl e \<Rightarrow> \<lparr>trace = t, result = Inl e, file_after = state_file w\<rparr>
      | Inr (new_ids, removed_ids) \<Rightarrow>
          (let parts = update_parts count_old count_now new_ids removed_ids;
               msg = update_msg parts;
               sent = (if parts \<noteq> [] then [TgSend msg] else [])
           in if parts \<noteq> [] \<and> \<not> tg_ok w msg
              then \<lparr>trace = t @ sent, result = Inl NotifyError, file_after = state_file w\<rparr>
              else
                (case sorted_ids ids_now of
                   Inl e \<Rightarrow> \<lparr>trace = t @ sent, result = Inl e, file_after = state_file w\<rparr>
                 | Inr ids \<Rightarrow>
                     (let state' = stored state ids count_now (clock w)
                      in \<lparr>trace = t @ sent @ [SaveState state'], result = Inr (),
                          file_after = Json (Dict state')\<rparr>))))"

text \<open>
  Lines 84 to 90 and the branch on \<open>initialized\<close>. \<open>state.get("seen_ids", [])\<close>,
  \<open>state.get("last_count", None)\<close> and \<open>bool(state.get("initialized", False))\<close> give
  the defaults for absent keys. Writing the state file and reading the clock are taken to
  succeed; the environment variables read when the module is loaded are outside \<open>main\<close>.
\<close>

definition ids_old_of :: "state_dict \<Rightarrow> string list" where
  "ids_old_of state = remdups (case seen_ids state of None \<Rightarrow> [] | Some ids \<Rightarrow> ids)"

definition count_old_of :: "state_dict \<Rightarrow> int option" where
  "count_old_of state = (case last_count state of None \<Rightarrow> None | Some c \<Rightarrow> c)"

definition is_initialized :: "state_dict \<Rightarrow> bool" where
  "is_initialized state = (case initialized state of None \<Rightarrow> False | Some b \<Rightarrow> b)"

definition main :: "world \<Rightarrow> run" where
  "main w =
     (case fetch_html (responses w) of
        (t, Inl e) \<Rightarrow> \<lparr>trace = t, result = Inl e, file_after = state_file w\<rparr>
      | (t, Inr html) \<Rightarrow>
          (case parse_ids_and_count w html of
             (found, count_now) \<Rightarrow>
               (let ids_now = remdups found in
                case load_state (state_file w) of
                  Inl e \<Rightarrow> \<lparr>trace = t, result = Inl e, file_after = state_file w\<rparr>
                | Inr NonDict \<Rightarrow>
                    \<lparr>trace = t, result = Inl AttributeError, file_after = state_file w\<rparr>
                | Inr (Dict state) \<Rightarrow>
                    if \<not> is_initialized state
                    then first_run w t state ids_now count_now
                    else update_run w t state ids_now count_now
                           (ids_old_of state) (count_old_of state))))"

section \<open>Notions used to state the properties\<close>

text \<open>Numeric order on identifiers: both sides are integer literals and compare so.\<close>

definition num_le :: "string \<Rightarrow> string \<Rightarrow> bool" where
  "num_le a b =
     (case py_int a of
        None \<Rightarrow> False
      | Some i \<Rightarrow> (case py_int b of None \<Rightarrow> False | Some j \<Rightarrow> i \<le> j))"

definition num_less :: "string \<Rightarrow> string \<Rightarrow> bool" where
  "num_less a b =
     (case py_int a of
        None \<Rightarrow> False
      | Some i \<Rightarrow> (case py_int b of None \<Rightarrow> False | Some j \<Rightarrow> i < j))"

text \<open>The messages handed to \<open>tg_send\<close> and the dicts handed to \<open>save_state\<close>, in order.\<close>

fun sends :: "event list \<Rightarrow> string list" where
  "sends [] = []"
| "sends (TgSend m # es) = m # sends es"
| "sends (e # es) = sends es"

fun saves :: "event list \<Rightarrow> state_dict list" where
  "saves [] = []"
| "saves (SaveState st # es) = st # saves es"
| "saves (e # es) = saves es"

text \<open>
  The snapshot a run observes, if \<open>fetch_html\<close> returns a page: the events of the fetch,
  the id set and the count.
\<close>

definition snapshot_of :: "world \<Rightarrow> (event list \<times> string list \<times> int option) option" where
  "snapshot_of w =
     (case fetch_html (responses w) of
        (t, Inl e) \<Rightarrow> None
      | (t, Inr html) \<Rightarrow>
          (case parse_ids_and_count w html of (found, count_now) \<Rightarrow>
             Some (t, remdups found, count_now)))"

text \<open>The count-change line of an update message.\<close>

definition count_line :: "int \<Rightarrow> int \<Rightarrow> string" where
  "count_line old n = ''Result count changed: '' @ str_int old @ '' '' @ arrow @ '' '' @ str_int n"

text \<open>
  The persisted-record schema in the specification's words: a record with
  \<open>initialized: bool\<close>, \<open>ids: array of string\<close>, \<open>count: integer|null\<close> and
  \<open>lastCheckedEpoch: integer\<close>. A file holds such a record when it is a JSON object
  with these four fields.
\<close>

definition parses_to_schema :: "file_content \<Rightarrow> bool" where
  "parses_to_schema f =
     (case f of
        Json (Dict d) \<Rightarrow>
          initialized d \<noteq> None \<and> seen_ids d \<noteq> None \<and> last_count d \<noteq> None \<and>
          last_checked_epoch d \<noteq> None
      | _ \<Rightarrow> False)"

subsection \<open>Example runs\<close>

definition example_state :: "string list \<Rightarrow> int option \<Rightarrow> state_dict" where
  "example_state ids c =
     \<lparr>initialized = Some True, seen_ids = Some ids, last_count = Some c,
      last_checked_epoch = Some 900\<rparr>"

definition example_world :: "string list \<Rightarrow> int option \<Rightarrow> bool \<Rightarrow> file_content \<Rightarrow> world" where
  "example_world found c ok f =
     \<lparr>responses = (\<lambda>i. Inr ''<html>''), parse_ids_and_count = (\<lambda>html. (found, c)),
      tg_ok = (\<lambda>m. ok), clock = 1000, state_file = f\<rparr>"

text \<open>
  The specification's end-to-end scenario: stored ids 10 and 11 with count 2, and a page
  listing 11, 12 and 13 with count 3.
\<close>

definition scenario_state :: state_dict where
  "scenario_state = example_state [''10'', ''11''] (Some 2)"

definition scenario_world :: world where
  "scenario_world =
     example_world [''11'', ''12'', ''13''] (Some 3) True (Json (Dict scenario_state))"

text \<open>The same page seen twice: the stored state already holds the page's ids and count.\<close>

definition unchanged_world :: world where
  "unchanged_world =
     example_world [''11'', ''12'', ''13''] (Some 3) True
       (Json (Dict (example_state [''11'', ''12'', ''13''] (Some 3))))"

text \<open>The specification's empty-source scenario: no state file, a page without listings.\<close>

definition empty_world :: world where
  "empty_world = example_world [] (Some 0) True NoFile"

text \<open>A page that links the listings 7 and 07, seen after listing 1.\<close>

definition ties_world :: world where
  "ties_world = example_world [''7'', ''07''] (Some 2) True (Json (Dict (example_state [''1''] (Some 1))))"

text \<open>A state file written by hand, without the \<open>initialized\<close> key and the time stamp.\<close>

definition partial_state :: state_dict where
  "partial_state =
     \<lparr>initialized = None, seen_ids = Some [''5''], last_count = Some (Some 1),
      last_checked_epoch = None\<rparr>"

section \<open>Facts about \<open>int\<close> and \<open>sorted\<close>\<close>

subsection \<open>Which strings \<open>int\<close> accepts\<close>











subsection \<open>What \<open>sorted(xs, key=int)\<close> returns\<close>

lemma int_keys_Inr:
  "int_keys xs = Inr ks \<Longrightarrow> map snd ks = xs \<and> (\<forall>p\<in>set ks. py_int (snd p) = Some (fst p))"
  by (induction xs arbitrary: ks) (auto split: option.splits sum.splits)


lemma int_keys_total:
  "\<forall>x\<in>set xs. py_int x \<noteq> None \<Longrightarrow> \<exists>ks. int_keys xs = Inr ks"
  by (induction xs) (auto split: option.splits sum.splits)


lemma sorted_pairs_num_le:
  assumes "sorted (map fst ps)" and "\<forall>p\<in>set ps. py_int (snd p) = Some (fst p)"
  shows "sorted_wrt num_le (map snd ps)"
  using assms by (induction ps) (auto simp: num_le_def)

lemma strict_pairs_num_less:
  assumes "sorted_wrt (<) (map fst ps)" and "\<forall>p\<in>set ps. py_int (snd p) = Some (fst p)"
  shows "sorted_wrt num_less (map snd ps)"
  using assms by (induction ps) (auto simp: num_less_def)

lemma py_sorted_Inr:
  assumes "py_sorted xs = Inr ys"
  shows "set ys = set xs" and "distinct xs \<Longrightarrow> distinct ys" and "sorted_wrt num_le ys"
proof -
  from assms obtain ks where ks: "int_keys xs = Inr ks" and ys: "ys = map snd (sort_key fst ks)"
    by (auto simp: py_sorted_def split: sum.splits)
  from int_keys_Inr [OF ks] have m: "map snd ks = xs" and k: "\<forall>p\<in>set ks. py_int (snd p) = Some (fst p)"
    by simp_all
  have "set ys = snd ` set ks" unfolding ys by simp
  also have "\<dots> = set (map snd ks)" by simp
  finally show "set ys = set xs" using m by simp
  show "distinct ys" if "distinct xs"
  proof -
    from that m have "distinct (map snd ks)" by simp
    then have "distinct ks" and "inj_on snd (set ks)" by (simp_all add: distinct_map)
    then show ?thesis unfolding ys by (simp add: distinct_map)
  qed
  show "sorted_wrt num_le ys" unfolding ys
    by (rule sorted_pairs_num_le) (use k in simp_all)
qed

lemma py_sorted_strict:
  assumes "py_sorted xs = Inr ys" and "distinct xs" and "inj_on py_int (set xs)"
  shows "sorted_wrt num_less ys"
proof -
  from assms obtain ks where ks: "int_keys xs = Inr ks" and ys: "ys = map snd (sort_key fst ks)"
    by (auto simp: py_sorted_def split: sum.splits)
  from int_keys_Inr [OF ks] have m: "map snd ks = xs" and k: "\<forall>p\<in>set ks. py_int (snd p) = Some (fst p)"
    by simp_all
  have "inj_on fst (set ks)"
  proof (rule inj_onI)
    fix p q assume p: "p \<in> set ks" and q: "q \<in> set ks" and e: "fst p = fst q"
    then have "py_int (snd p) = py_int (snd q)" using k by simp
    moreover have "snd p \<in> set xs" "snd q \<in> set xs" using p q m by (metis image_eqI set_map)+
    ultimately have "snd p = snd q" using assms(3) by (auto dest: inj_onD)
    with e show "p = q" by (simp add: prod_eq_iff)
  qed
  moreover have "distinct ks" using assms(2) m by (metis distinct_map)
  ultimately have "distinct (map fst ks)" by (simp add: distinct_map)
  then have "distinct (map fst (sort_key fst ks))"
    by (metis distinct_map distinct_sort set_sort)
  then have "sorted_wrt (<) (map fst (sort_key fst ks))"
    by (simp add: strict_sorted_iff)
  then show ?thesis unfolding ys
    by (rule strict_pairs_num_less) (use k in simp_all)
qed

lemma py_sorted_total: "\<forall>x\<in>set xs. py_int x \<noteq> None \<Longrightarrow> \<exists>ys. py_sorted xs = Inr ys"
  using int_keys_total [of xs] by (auto simp: py_sorted_def)


section \<open>Facts about a run\<close>

lemma sends_append: "sends (xs @ ys) = sends xs @ sends ys"
  by (induction xs rule: sends.induct) simp_all

lemma saves_append: "saves (xs @ ys) = saves xs @ saves ys"
  by (induction xs rule: saves.induct) simp_all

lemma fetch_loop_quiet:
  "sends (fst (fetch_loop get is e)) = [] \<and> saves (fst (fetch_loop get is e)) = []"
proof (induction "is" arbitrary: e)
  case Nil
  show ?case by simp
next
  case (Cons i rest)
  show ?case
  proof (cases "get i")
    case (Inr page)
    then show ?thesis by simp
  next
    case (Inl c)
    obtain tr r where f: "fetch_loop get rest (Some c) = (tr, r)"
      by (cases "fetch_loop get rest (Some c)")
    with Cons [of "Some c"] have "sends tr = [] \<and> saves tr = []" by simp
    with Inl f show ?thesis by simp
  qed
qed

lemma fetch_html_quiet:
  "fetch_html get = (t, r) \<Longrightarrow> sends t = [] \<and> saves t = []"
  using fetch_loop_quiet [of get "[0, 1, 2]" None]
  by (auto simp: fetch_html_def split: prod.splits sum.splits option.splits)

lemma snapshot_of_quiet:
  "snapshot_of w = Some (t, ids_now, count_now) \<Longrightarrow> sends t = [] \<and> saves t = [] \<and> distinct ids_now"
  by (auto simp: snapshot_of_def split: prod.splits sum.splits dest: fetch_html_quiet)

lemma distinct_ids_old_of: "distinct (ids_old_of state)"
  by (simp add: ids_old_of_def)

lemma main_no_page:
  "snapshot_of w = None \<Longrightarrow>
     saves (trace (main w)) = [] \<and> sends (trace (main w)) = [] \<and> file_after (main w) = state_file w
     \<and> (\<exists>e. result (main w) = Inl e)"
  by (auto simp: snapshot_of_def main_def split: prod.splits sum.splits dest: fetch_html_quiet)

lemma main_load_fails:
  "snapshot_of w = Some (t, ids_now, count_now) \<Longrightarrow> load_state (state_file w) = Inl e \<Longrightarrow>
     main w = \<lparr>trace = t, result = Inl e, file_after = state_file w\<rparr>"
  by (auto simp: snapshot_of_def main_def split: prod.splits sum.splits)

lemma main_non_dict:
  "snapshot_of w = Some (t, ids_now, count_now) \<Longrightarrow> load_state (state_file w) = Inr NonDict \<Longrightarrow>
     main w = \<lparr>trace = t, result = Inl AttributeError, file_after = state_file w\<rparr>"
  by (auto simp: snapshot_of_def main_def split: prod.splits sum.splits)

lemma main_first_run:
  "snapshot_of w = Some (t, ids_now, count_now) \<Longrightarrow> load_state (state_file w) = Inr (Dict state) \<Longrightarrow>
     \<not> is_initialized state \<Longrightarrow> main w = first_run w t state ids_now count_now"
  by (auto simp: snapshot_of_def main_def split: prod.splits sum.splits)

lemma main_update_run:
  "snapshot_of w = Some (t, ids_now, count_now) \<Longrightarrow> load_state (state_file w) = Inr (Dict state) \<Longrightarrow>
     is_initialized state \<Longrightarrow>
     main w = update_run w t state ids_now count_now (ids_old_of state) (count_old_of state)"
  by (auto simp: snapshot_of_def main_def split: prod.splits sum.splits)

lemma sorted_ids_total:
  "\<forall>s\<in>set ids. py_int s \<noteq> None \<Longrightarrow> \<exists>ys. sorted_ids ids = Inr ys"
  using py_sorted_total [of ids] by (simp add: sorted_ids_def)

lemma sorted_ids_Inr:
  assumes "sorted_ids ids = Inr ys"
  shows "set ys = set ids" and "distinct ids \<Longrightarrow> distinct ys" and "sorted_wrt num_le ys"
  using assms py_sorted_Inr [of ids ys] by (auto simp: sorted_ids_def split: if_splits)



lemma update_run_quiet:
  assumes "new_and_removed ids_now ids_old = Inr (new_ids, removed_ids)"
    and "update_parts count_old count_now new_ids removed_ids = []"
    and "sorted_ids ids_now = Inr ids"
  shows "update_run w t state ids_now count_now ids_old count_old =
     \<lparr>trace = t @ [SaveState (stored state ids count_now (clock w))], result = Inr (),
      file_after = Json (Dict (stored state ids count_now (clock w)))\<rparr>"
  using assms by (simp add: update_run_def Let_def)

lemma update_run_sent:
  assumes "new_and_removed ids_now ids_old = Inr (new_ids, removed_ids)"
    and "update_parts count_old count_now new_ids removed_ids = parts" and "parts \<noteq> []"
    and "tg_ok w (update_msg parts)"
    and "sorted_ids ids_now = Inr ids"
  shows "update_run w t state ids_now count_now ids_old count_old =
     \<lparr>trace = t @ [TgSend (update_msg parts), SaveState (stored state ids count_now (clock w))],
      result = Inr (),
      file_after = Json (Dict (stored state ids count_now (clock w)))\<rparr>"
  using assms by (simp add: update_run_def Let_def)

lemma update_run_notify_fails:
  assumes "new_and_removed ids_now ids_old = Inr (new_ids, removed_ids)"
    and "update_parts count_old count_now new_ids removed_ids = parts" and "parts \<noteq> []"
    and "\<not> tg_ok w (update_msg parts)"
  shows "update_run w t state ids_now count_now ids_old count_old =
     \<lparr>trace = t @ [TgSend (update_msg parts)], result = Inl NotifyError, file_after = state_file w\<rparr>"
  using assms by (simp add: update_run_def Let_def)

lemma set_diff_set: "set (set_diff a b) = set a - set b"
  by (auto simp: set_diff_def)

lemma set_diff_distinct: "distinct a \<Longrightarrow> distinct (set_diff a b)"
  by (simp add: set_diff_def)

lemma new_and_removed_total:
  assumes "\<forall>s\<in>set ids_now \<union> set ids_old. py_int s \<noteq> None"
  shows "\<exists>new_ids removed_ids. new_and_removed ids_now ids_old = Inr (new_ids, removed_ids)"
proof -
  have "\<forall>s\<in>set (set_diff ids_now ids_old). py_int s \<noteq> None"
    and "\<forall>s\<in>set (set_diff ids_old ids_now). py_int s \<noteq> None"
    using assms by (auto simp: set_diff_set)
  then obtain a b where "py_sorted (set_diff ids_now ids_old) = Inr a"
    and "py_sorted (set_diff ids_old ids_now) = Inr b"
    using py_sorted_total by blast
  then show ?thesis by (simp add: new_and_removed_def)
qed

lemma new_and_removed_Inr:
  assumes "new_and_removed ids_now ids_old = Inr (new_ids, removed_ids)"
  shows "py_sorted (set_diff ids_now ids_old) = Inr new_ids"
    and "py_sorted (set_diff ids_old ids_now) = Inr removed_ids"
  using assms by (auto simp: new_and_removed_def split: sum.splits)

subsection \<open>The two differences\<close>

lemma new_and_removed_props:
  assumes nr: "new_and_removed ids_now ids_old = Inr (new_ids, removed_ids)"
    and dn: "distinct ids_now" and d_old: "distinct ids_old"
  shows "set new_ids = set ids_now - set ids_old"
    and "set removed_ids = set ids_old - set ids_now"
    and "distinct new_ids" and "distinct removed_ids"
    and "sorted_wrt num_le new_ids" and "sorted_wrt num_le removed_ids"
    and "inj_on py_int (set ids_now \<union> set ids_old) \<Longrightarrow> sorted_wrt num_less new_ids"
    and "inj_on py_int (set ids_now \<union> set ids_old) \<Longrightarrow> sorted_wrt num_less removed_ids"
proof -
  note a = new_and_removed_Inr(1) [OF nr] and r = new_and_removed_Inr(2) [OF nr]
  show "set new_ids = set ids_now - set ids_old"
    using py_sorted_Inr(1) [OF a] by (simp add: set_diff_set)
  show "set removed_ids = set ids_old - set ids_now"
    using py_sorted_Inr(1) [OF r] by (simp add: set_diff_set)
  show "distinct new_ids"
    using py_sorted_Inr(2) [OF a] dn by (simp add: set_diff_distinct)
  show "distinct removed_ids"
    using py_sorted_Inr(2) [OF r] d_old by (simp add: set_diff_distinct)
  show "sorted_wrt num_le new_ids" by (rule py_sorted_Inr(3) [OF a])
  show "sorted_wrt num_le removed_ids" by (rule py_sorted_Inr(3) [OF r])
  show "sorted_wrt num_less new_ids" if "inj_on py_int (set ids_now \<union> set ids_old)"
  proof (rule py_sorted_strict [OF a])
    show "distinct (set_diff ids_now ids_old)" using dn by (rule set_diff_distinct)
    show "inj_on py_int (set (set_diff ids_now ids_old))"
      using that by (auto simp: set_diff_set intro: inj_on_subset)
  qed
  show "sorted_wrt num_less removed_ids" if "inj_on py_int (set ids_now \<union> set ids_old)"
  proof (rule py_sorted_strict [OF r])
    show "distinct (set_diff ids_old ids_now)" using d_old by (rule set_diff_distinct)
    show "inj_on py_int (set (set_diff ids_old ids_now))"
      using that by (auto simp: set_diff_set intro: inj_on_subset)
  qed
qed

text \<open>A strictly ascending enumeration of a set of identifiers is unique.\<close>

lemma num_less_sorted_unique:
  assumes "sorted_wrt num_less xs" and "sorted_wrt num_less ys" and "set xs = set ys"
  shows "xs = ys"
proof -
  define key where "key = (\<lambda>s. case py_int s of None \<Rightarrow> (0::int) | Some k \<Rightarrow> k)"
  have lt: "num_less a b \<Longrightarrow> key a < key b" for a b
    by (auto simp: num_less_def key_def split: option.splits)
  have sx: "sorted_wrt (<) (map key xs)"
    using assms(1) by (simp add: sorted_wrt_map) (erule sorted_wrt_mono_rel [rotated], simp add: lt)
  have sy: "sorted_wrt (<) (map key ys)"
    using assms(2) by (simp add: sorted_wrt_map) (erule sorted_wrt_mono_rel [rotated], simp add: lt)
  have "set (map key xs) = set (map key ys)" using assms(3) by simp
  with sx sy have m: "map key xs = map key ys" by (metis strict_sorted_equal)
  have "distinct (map key xs)" using sx strict_sorted_iff by blast
  then have "inj_on key (set xs)" by (simp add: distinct_map)
  then have "inj_on key (set xs \<union> set ys)" using assms(3) by simp
  with m show ?thesis by (rule map_inj_on)
qed

subsection \<open>The outcomes of the two branches\<close>


lemma first_run_outcome:
  "(\<exists>e. sorted_ids ids_now = Inl e \<and>
        first_run w t state ids_now count_now = \<lparr>trace = t, result = Inl e, file_after = state_file w\<rparr>) \<or>
   (\<exists>ids. sorted_ids ids_now = Inr ids \<and>
        first_run w t state ids_now count_now =
          \<lparr>trace = t @ [SaveState (stored (state\<lparr>initialized := Some True\<rparr>) ids count_now (clock w)),
                        TgSend (baseline_msg count_now ids_now)],
           result = (if tg_ok w (baseline_msg count_now ids_now) then Inr () else Inl NotifyError),
           file_after = Json (Dict (stored (state\<lparr>initialized := Some True\<rparr>) ids count_now (clock w)))\<rparr>)"
  by (cases "sorted_ids ids_now") (simp_all add: first_run_def Let_def)

lemma update_run_outcome:
  "(\<exists>ms e. trace (update_run w t state ids_now count_now ids_old count_old) = t @ map TgSend ms \<and>
        file_after (update_run w t state ids_now count_now ids_old count_old) = state_file w \<and>
        result (update_run w t state ids_now count_now ids_old count_old) = Inl e) \<or>
    (\<exists>ms ids. sorted_ids ids_now = Inr ids \<and>
        trace (update_run w t state ids_now count_now ids_old count_old) =
          t @ map TgSend ms @ [SaveState (stored state ids count_now (clock w))] \<and>
        file_after (update_run w t state ids_now count_now ids_old count_old) =
          Json (Dict (stored state ids count_now (clock w))) \<and>
        result (update_run w t state ids_now count_now ids_old count_old) = Inr ())"
proof (cases "new_and_removed ids_now ids_old")
  case (Inl e)
  then have "update_run w t state ids_now count_now ids_old count_old =
      \<lparr>trace = t @ map TgSend [], result = Inl e, file_after = state_file w\<rparr>"
    by (simp add: update_run_def)
  then show ?thesis by (metis run.select_convs)
next
  case (Inr p)
  obtain new_ids removed_ids where p: "p = (new_ids, removed_ids)" by (cases p)
  define parts where "parts = update_parts count_old count_now new_ids removed_ids"
  show ?thesis
  proof (cases "parts \<noteq> [] \<and> \<not> tg_ok w (update_msg parts)")
    case True
    with Inr p have "update_run w t state ids_now count_now ids_old count_old =
      \<lparr>trace = t @ map TgSend [update_msg parts], result = Inl NotifyError, file_after = state_file w\<rparr>"
      by (simp add: update_run_def parts_def Let_def)
    then show ?thesis by (metis run.select_convs)
  next
    case False
    define ms where "ms = (if parts \<noteq> [] then [update_msg parts] else [])"
    show ?thesis
    proof (cases "sorted_ids ids_now")
      case (Inl e)
      with Inr p False have "update_run w t state ids_now count_now ids_old count_old =
        \<lparr>trace = t @ map TgSend ms, result = Inl e, file_after = state_file w\<rparr>"
        by (auto simp: update_run_def parts_def Let_def ms_def)
      then show ?thesis by (metis run.select_convs)
    next
      case ok: (Inr ids)
      with Inr p False have "update_run w t state ids_now count_now ids_old count_old =
        \<lparr>trace = t @ map TgSend ms @ [SaveState (stored state ids count_now (clock w))],
         result = Inr (), file_after = Json (Dict (stored state ids count_now (clock w)))\<rparr>"
        by (auto simp: update_run_def parts_def Let_def ms_def)
      with ok show ?thesis by (metis run.select_convs)
    qed
  qed
qed


lemma saves_sends_map_TgSend: "saves (map TgSend ms) = [] \<and> sends (map TgSend ms) = ms"
  by (induction ms) simp_all

lemma stored_fields:
  "seen_ids (stored state ids count_now now) = Some ids"
  "last_count (stored state ids count_now now) = Some count_now"
  "last_checked_epoch (stored state ids count_now now) = Some now"
  "initialized (stored state ids count_now now) = initialized state"
  "is_initialized (stored state ids count_now now) = is_initialized state"
  "ids_old_of (stored state ids count_now now) = remdups ids"
  "count_old_of (stored state ids count_now now) = count_now"
  by (simp_all add: stored_def is_initialized_def ids_old_of_def count_old_of_def)

text \<open>Every dict a run saves, and the file it leaves.\<close>

lemma main_saves:
  assumes "st \<in> set (saves (trace (main w)))"
  shows "\<exists>t ids_now count_now state ids.
           snapshot_of w = Some (t, ids_now, count_now) \<and>
           load_state (state_file w) = Inr (Dict state) \<and>
           sorted_ids ids_now = Inr ids \<and>
           st = stored (state\<lparr>initialized := Some True\<rparr>) ids count_now (clock w)"
proof (cases "snapshot_of w")
  case None
  from main_no_page [OF None] assms show ?thesis by simp
next
  case (Some x)
  obtain t ids_now count_now where s: "snapshot_of w = Some (t, ids_now, count_now)"
    using Some by (cases x) auto
  note q = snapshot_of_quiet [OF s]
  show ?thesis
  proof (cases "load_state (state_file w)")
    case (Inl e)
    from main_load_fails [OF s Inl] assms q show ?thesis by simp
  next
    case (Inr v)
    show ?thesis
    proof (cases v)
      case NonDict
      from main_non_dict [OF s Inr [unfolded NonDict]] assms q show ?thesis by simp
    next
      case (Dict state)
      note l = Inr [unfolded Dict]
      show ?thesis
      proof (cases "is_initialized state")
        case False
        note m = main_first_run [OF s l False]
        from first_run_outcome [of ids_now w t state count_now] show ?thesis
        proof (elim disjE exE conjE)
          fix e assume "first_run w t state ids_now count_now =
            \<lparr>trace = t, result = Inl e, file_after = state_file w\<rparr>"
          with m assms q show ?thesis by simp
        next
          fix ids assume ok: "sorted_ids ids_now = Inr ids"
            and "first_run w t state ids_now count_now =
              \<lparr>trace = t @ [SaveState (stored (state\<lparr>initialized := Some True\<rparr>) ids count_now (clock w)),
                            TgSend (baseline_msg count_now ids_now)],
               result = (if tg_ok w (baseline_msg count_now ids_now) then Inr () else Inl NotifyError),
               file_after = Json (Dict (stored (state\<lparr>initialized := Some True\<rparr>) ids count_now (clock w)))\<rparr>"
          with m assms q have "st = stored (state\<lparr>initialized := Some True\<rparr>) ids count_now (clock w)"
            by (simp add: saves_append)
          with s l ok show ?thesis by blast
        qed
      next
        case True
        then have i: "state\<lparr>initialized := Some True\<rparr> = state"
          by (cases "initialized state") (simp_all add: is_initialized_def)
        note m = main_update_run [OF s l True]
        from update_run_outcome [of w t state ids_now count_now "ids_old_of state" "count_old_of state"]
        show ?thesis
        proof (elim disjE exE conjE)
          fix ms e
          assume "trace (update_run w t state ids_now count_now (ids_old_of state) (count_old_of state)) =
                    t @ map TgSend ms"
          with m assms q show ?thesis by (simp add: saves_append saves_sends_map_TgSend)
        next
          fix ms ids
          assume ok: "sorted_ids ids_now = Inr ids"
            and "trace (update_run w t state ids_now count_now (ids_old_of state) (count_old_of state)) =
                   t @ map TgSend ms @ [SaveState (stored state ids count_now (clock w))]"
          with m assms q have "st = stored state ids count_now (clock w)"
            by (simp add: saves_append saves_sends_map_TgSend)
          with s l ok i show ?thesis by metis
        qed
      qed
    qed
  qed
qed


subsection \<open>The whole run of each branch when every sort succeeds\<close>


lemma initialized_run_main:
  assumes snap: "snapshot_of w = Some (t, ids_now, count_now)"
    and load: "load_state (state_file w) = Inr (Dict state)"
    and init: "is_initialized state"
    and nr: "new_and_removed ids_now (ids_old_of state) = Inr (new_ids, removed_ids)"
    and ints: "\<forall>s\<in>set ids_now. py_int s \<noteq> None"
    and parts: "parts = update_parts (count_old_of state) count_now new_ids removed_ids"
  shows "\<exists>ids. sorted_ids ids_now = Inr ids \<and> set ids = set ids_now \<and>
           main w =
             (if parts = []
              then \<lparr>trace = t @ [SaveState (stored state ids count_now (clock w))], result = Inr (),
                    file_after = Json (Dict (stored state ids count_now (clock w)))\<rparr>
              else if tg_ok w (update_msg parts)
              then \<lparr>trace = t @ [TgSend (update_msg parts),
                                 SaveState (stored state ids count_now (clock w))],
                    result = Inr (),
                    file_after = Json (Dict (stored state ids count_now (clock w)))\<rparr>
              else \<lparr>trace = t @ [TgSend (update_msg parts)], result = Inl NotifyError,
                    file_after = state_file w\<rparr>)"
proof -
  from sorted_ids_total [OF ints] obtain ids where ok: "sorted_ids ids_now = Inr ids" by blast
  note m = main_update_run [OF snap load init]
  have "main w =
             (if parts = []
              then \<lparr>trace = t @ [SaveState (stored state ids count_now (clock w))], result = Inr (),
                    file_after = Json (Dict (stored state ids count_now (clock w)))\<rparr>
              else if tg_ok w (update_msg parts)
              then \<lparr>trace = t @ [TgSend (update_msg parts),
                                 SaveState (stored state ids count_now (clock w))],
                    result = Inr (),
                    file_after = Json (Dict (stored state ids count_now (clock w)))\<rparr>
              else \<lparr>trace = t @ [TgSend (update_msg parts)], result = Inl NotifyError,
                    file_after = state_file w\<rparr>)"
  proof (cases "parts = []")
    case True
    from update_run_quiet [OF nr True [unfolded parts] ok] m True show ?thesis by simp
  next
    case False
    show ?thesis
    proof (cases "tg_ok w (update_msg parts)")
      case True
      from update_run_sent [OF nr parts [symmetric] False True ok] m False True
      show ?thesis by simp
    next
      case ko: False
      from update_run_notify_fails [OF nr parts [symmetric] False ko] m False ko
      show ?thesis by simp
    qed
  qed
  with ok sorted_ids_Inr(1) [OF ok] show ?thesis by blast
qed

lemma initialized_run_effects:
  assumes snap: "snapshot_of w = Some (t, ids_now, count_now)"
    and load: "load_state (state_file w) = Inr (Dict state)"
    and init: "is_initialized state"
    and nr: "new_and_removed ids_now (ids_old_of state) = Inr (new_ids, removed_ids)"
    and ints: "\<forall>s\<in>set ids_now. py_int s \<noteq> None"
    and parts: "parts = update_parts (count_old_of state) count_now new_ids removed_ids"
  shows "sends (trace (main w)) = (if parts = [] then [] else [update_msg parts])"
    and "result (main w) = Inr () \<Longrightarrow>
           \<exists>ids. saves (trace (main w)) = [stored state ids count_now (clock w)] \<and>
                 file_after (main w) = Json (Dict (stored state ids count_now (clock w))) \<and>
                 set ids = set ids_now"
    and "result (main w) = Inr () \<or> result (main w) = Inl NotifyError"
    and "result (main w) = Inl NotifyError \<longleftrightarrow> parts \<noteq> [] \<and> \<not> tg_ok w (update_msg parts)"
    and "result (main w) \<noteq> Inr () \<Longrightarrow> saves (trace (main w)) = [] \<and> file_after (main w) = state_file w"
proof -
  from initialized_run_main [OF snap load init nr ints parts] obtain ids
    where i: "set ids = set ids_now" and m: "main w =
             (if parts = []
              then \<lparr>trace = t @ [SaveState (stored state ids count_now (clock w))], result = Inr (),
                    file_after = Json (Dict (stored state ids count_now (clock w)))\<rparr>
              else if tg_ok w (update_msg parts)
              then \<lparr>trace = t @ [TgSend (update_msg parts),
                                 SaveState (stored state ids count_now (clock w))],
                    result = Inr (),
                    file_after = Json (Dict (stored state ids count_now (clock w)))\<rparr>
              else \<lparr>trace = t @ [TgSend (update_msg parts)], result = Inl NotifyError,
                    file_after = state_file w\<rparr>)"
    by blast
  note q = snapshot_of_quiet [OF snap]
  show "sends (trace (main w)) = (if parts = [] then [] else [update_msg parts])"
    using m q by (simp add: sends_append)
  show "\<exists>ids. saves (trace (main w)) = [stored state ids count_now (clock w)] \<and>
                 file_after (main w) = Json (Dict (stored state ids count_now (clock w))) \<and>
                 set ids = set ids_now" if "result (main w) = Inr ()"
    using that m q i by (intro exI [of _ ids]) (simp add: saves_append split: if_splits)
  show "result (main w) = Inr () \<or> result (main w) = Inl NotifyError"
    using m by simp
  show "result (main w) = Inl NotifyError \<longleftrightarrow> parts \<noteq> [] \<and> \<not> tg_ok w (update_msg parts)"
    using m by simp
  show "saves (trace (main w)) = [] \<and> file_after (main w) = state_file w"
    if "result (main w) \<noteq> Inr ()"
    using that m q by (simp add: saves_append split: if_splits)
qed

subsection \<open>The \<open>initialized\<close> flag\<close>



subsection \<open>Equal sets give empty differences\<close>



subsection \<open>The count-change line among the parts\<close>




subsection \<open>When the sorts fail\<close>



subsection \<open>Unfolding a run on concrete inputs\<close>

lemmas int_eval = py_sorted_def py_int_def strip_def is_space_def is_digit_def digit_val_def

lemmas str_eval = str_int_def str_nat.simps digit_chr_def

lemmas run_eval = main_def first_run_def update_run_def new_and_removed_def sorted_ids_def
  stored_def ids_old_of_def count_old_of_def is_initialized_def load_state_def fetch_html_def
  set_diff_def example_world_def example_state_def scenario_world_def scenario_state_def
  unchanged_world_def empty_world_def ties_world_def snapshot_of_def default_state_def Let_def

lemmas msg_eval = update_parts_def count_part_def count_line_def new_part_def removed_part_def

section \<open>The claims\<close>

subsection \<open>C1: saving when the notification fails\<close>

text \<open>
  The baseline branch saves the state and then notifies, so a failed notification leaves
  the new state on disk.
\<close>

lemma baseline_saves_before_notifying:
  "main (example_world [''11'', ''12''] (Some 2) False NoFile) =
     \<lparr>trace = [HttpGet,
               SaveState \<lparr>initialized = Some True, seen_ids = Some [''11'', ''12''],
                          last_count = Some (Some 2), last_checked_epoch = Some 1000\<rparr>,
               TgSend (baseline_msg (Some 2) [''11'', ''12''])],
      result = Inl NotifyError,
      file_after = Json (Dict \<lparr>initialized = Some True, seen_ids = Some [''11'', ''12''],
                          last_count = Some (Some 2), last_checked_epoch = Some 1000\<rparr>)\<rparr>"
  by (simp add: run_eval int_eval str_eval msg_eval default_state_def)

text \<open>
  C1 says that an initialized run attempts the save even if the notification fails, so that
  a later load returns the state built from the snapshot that triggered the notification.
  The update branch calls \<open>tg_send\<close> before \<open>save_state\<close>: in the end-to-end scenario with
  Telegram refusing the message, the run ends with the notification's exception, nothing is
  saved, and the file still holds the ids 10 and 11 with count 2.
\<close>

theorem failed_notification_skips_save:
  "main (example_world [''11'', ''12'', ''13''] (Some 3) False
           (Json (Dict (example_state [''10'', ''11''] (Some 2))))) =
     \<lparr>trace = [HttpGet,
               TgSend (update_msg [count_line 2 3, hd (new_part [''12'', ''13'']),
                                   hd (removed_part [''10''])])],
      result = Inl NotifyError,
      file_after = Json (Dict (example_state [''10'', ''11''] (Some 2)))\<rparr>"
  by (simp add: run_eval int_eval str_eval msg_eval)

subsection \<open>C2: retries and waits of \<open>fetch_html\<close>\<close>

text \<open>A first success returns at once; two failures are followed by waits of 2 and 4.\<close>

lemma fetch_html_first_success:
  "get 0 = Inr page \<Longrightarrow> fetch_html get = ([HttpGet], Inr page)"
  by (simp add: fetch_html_def)

lemma fetch_html_third_success:
  "get 0 = Inl a \<Longrightarrow> get 1 = Inl b \<Longrightarrow> get 2 = Inr page \<Longrightarrow>
     fetch_html get = ([HttpGet, Sleep 2, HttpGet, Sleep 4, HttpGet], Inr page)"
  by (simp add: fetch_html_def)

text \<open>
  C2 says that a failure of the third attempt fails at once, with no further wait. The loop
  sleeps after every failed attempt, the third included: three failures give the waits
  2, 4 and 6, and only then is the exception of the third attempt raised.
\<close>

theorem fetch_html_sleeps_after_third_failure:
  "fetch_html (\<lambda>i. Inl (cause i)) =
     ([HttpGet, Sleep 2, HttpGet, Sleep 4, HttpGet, Sleep 6], Inl (RequestException (cause 2)))"
  by (simp add: fetch_html_def)

subsection \<open>C3: the added and removed identifiers\<close>

text \<open>
  C3, as amended: in every initialized run whose identifiers \<open>int\<close> accepts, the added
  sequence enumerates the snapshot ids that are not stored and the removed sequence the
  stored ids that are not in the snapshot, each without duplicates and ascending by
  numeric value; they are strictly ascending when no two identifiers have the same
  numeric value. The message sent is built from these two sequences, and a run that ends
  normally has saved the snapshot's ids and count.
\<close>

theorem initialized_run_reports_sorted_differences:
  assumes snap: "snapshot_of w = Some (t, ids_now, count_now)"
    and load: "load_state (state_file w) = Inr (Dict state)"
    and init: "is_initialized state"
    and ints: "\<forall>s\<in>set ids_now \<union> set (ids_old_of state). py_int s \<noteq> None"
  shows "\<exists>new_ids removed_ids.
           new_and_removed ids_now (ids_old_of state) = Inr (new_ids, removed_ids) \<and>
           set new_ids = set ids_now - set (ids_old_of state) \<and>
           set removed_ids = set (ids_old_of state) - set ids_now \<and>
           distinct new_ids \<and> distinct removed_ids \<and>
           sorted_wrt num_le new_ids \<and> sorted_wrt num_le removed_ids \<and>
           (inj_on py_int (set ids_now \<union> set (ids_old_of state)) \<longrightarrow>
              sorted_wrt num_less new_ids \<and> sorted_wrt num_less removed_ids) \<and>
           sends (trace (main w)) =
             (if update_parts (count_old_of state) count_now new_ids removed_ids = [] then []
              else [update_msg (update_parts (count_old_of state) count_now new_ids removed_ids)]) \<and>
           (result (main w) = Inr () \<longrightarrow>
              (\<exists>ids. saves (trace (main w)) = [stored state ids count_now (clock w)] \<and>
                     file_after (main w) = Json (Dict (stored state ids count_now (clock w))) \<and>
                     set ids = set ids_now))"
proof -
  from new_and_removed_total [OF ints] obtain new_ids removed_ids
    where nr: "new_and_removed ids_now (ids_old_of state) = Inr (new_ids, removed_ids)" by blast
  from snapshot_of_quiet [OF snap] have dn: "distinct ids_now" by simp
  note p = new_and_removed_props [OF nr dn distinct_ids_old_of]
  from ints have "\<forall>s\<in>set ids_now. py_int s \<noteq> None" by simp
  note e = initialized_run_effects [OF snap load init nr this refl]
  show ?thesis
    apply (rule exI [of _ new_ids], rule exI [of _ removed_ids])
    using nr p e(1) e(2) by simp
qed

text \<open>
  Witness of C3: the end-to-end scenario satisfies its hypotheses and reports 12, 13 and 10.
\<close>

theorem initialized_run_reports_sorted_differences_witness:
  "snapshot_of scenario_world = Some ([HttpGet], [''11'', ''12'', ''13''], Some 3) \<and>
   load_state (state_file scenario_world) = Inr (Dict scenario_state) \<and>
   is_initialized scenario_state \<and>
   ids_old_of scenario_state = [''10'', ''11''] \<and>
   map py_int [''10'', ''11'', ''12'', ''13''] = [Some 10, Some 11, Some 12, Some 13] \<and>
   new_and_removed [''11'', ''12'', ''13''] (ids_old_of scenario_state) =
     Inr ([''12'', ''13''], [''10'']) \<and>
   sends (trace (main scenario_world)) =
     [update_msg (update_parts (Some 2) (Some 3) [''12'', ''13''] [''10''])]"
proof -
  have h1: "snapshot_of scenario_world = Some ([HttpGet], [''11'', ''12'', ''13''], Some 3)"
    by (simp add: run_eval)
  have h2: "load_state (state_file scenario_world) = Inr (Dict scenario_state)"
    by (simp add: run_eval)
  have h3: "is_initialized scenario_state"
    by (simp add: run_eval)
  have h4: "\<forall>s\<in>set [''11'', ''12'', ''13''] \<union> set (ids_old_of scenario_state). py_int s \<noteq> None"
    by (simp add: run_eval int_eval)
  have v: "new_and_removed [''11'', ''12'', ''13''] (ids_old_of scenario_state) =
     Inr ([''12'', ''13''], [''10''])"
    by (simp add: run_eval int_eval)
  have c: "count_old_of scenario_state = Some 2" by (simp add: run_eval)
  have ne: "update_parts (Some 2) (Some 3) [''12'', ''13''] [''10''] \<noteq> []"
    by (simp add: msg_eval)
  from initialized_run_reports_sorted_differences [OF h1 h2 h3 h4] v c ne
  have "sends (trace (main scenario_world)) =
     [update_msg (update_parts (Some 2) (Some 3) [''12'', ''13''] [''10''])]"
    by auto
  moreover have "ids_old_of scenario_state = [''10'', ''11'']"
    by (simp add: run_eval)
  moreover have "map py_int [''10'', ''11'', ''12'', ''13''] = [Some 10, Some 11, Some 12, Some 13]"
    by (simp add: int_eval)
  ultimately show ?thesis using h1 h2 h3 v by blast
qed

text \<open>The whole run of the end-to-end scenario.\<close>

lemma end_to_end_scenario:
  "main scenario_world =
     \<lparr>trace = [HttpGet,
               TgSend (update_msg [count_line 2 3, hd (new_part [''12'', ''13'']),
                                   hd (removed_part [''10''])]),
               SaveState \<lparr>initialized = Some True, seen_ids = Some [''11'', ''12'', ''13''],
                          last_count = Some (Some 3), last_checked_epoch = Some 1000\<rparr>],
      result = Inr (),
      file_after = Json (Dict \<lparr>initialized = Some True, seen_ids = Some [''11'', ''12'', ''13''],
                          last_count = Some (Some 3), last_checked_epoch = Some 1000\<rparr>)\<rparr>"
  by (simp add: run_eval int_eval str_eval msg_eval)

text \<open>
  C3 as stated fails: the identifiers 7 and 07 are different strings with the same numeric
  value, so the added sequence of this initialized run is not strictly ascending, in
  whichever order the set hands the two to \<open>sorted\<close>.
\<close>

theorem equal_values_not_strictly_ascending:
  "snapshot_of ties_world = Some ([HttpGet], [''7'', ''07''], Some 2) \<and>
   load_state (state_file ties_world) = Inr (Dict (example_state [''1''] (Some 1))) \<and>
   is_initialized (example_state [''1''] (Some 1)) \<and>
   new_and_removed [''7'', ''07''] (ids_old_of (example_state [''1''] (Some 1))) =
     Inr ([''7'', ''07''], [''1'']) \<and>
   \<not> sorted_wrt num_less [''7'', ''07''] \<and> \<not> sorted_wrt num_less [''07'', ''7''] \<and>
   sends (trace (main ties_world)) =
     [update_msg (update_parts (Some 1) (Some 2) [''7'', ''07''] [''1''])]"
  by (simp add: run_eval int_eval str_eval msg_eval num_less_def)

subsection \<open>C4: the first run\<close>



subsection \<open>C5: when a count change is reported\<close>



subsection \<open>C6: when a notification is sent\<close>



subsection \<open>C7: a run that finds nothing new\<close>



subsection \<open>C8: loading the state\<close>

text \<open>
  C8, as amended: loading returns the default uninitialized state when there is no file and
  fails when the file is not JSON, and then the run fails without writing the file; a file
  that holds any JSON value is returned as it is, without a check against the schema.
\<close>

theorem load_state_cases:
  "load_state NoFile = Inr (Dict default_state) \<and>
   initialized default_state = Some False \<and> seen_ids default_state = Some [] \<and>
   last_count default_state = Some None \<and>
   load_state NotJson = Inl JSONDecodeError \<and>
   load_state (Json v) = Inr v \<and>
   (state_file w = NotJson \<longrightarrow>
      (\<exists>e. result (main w) = Inl e) \<and> saves (trace (main w)) = [] \<and>
      file_after (main w) = NotJson)"
proof -
  have "(\<exists>e. result (main w) = Inl e) \<and> saves (trace (main w)) = [] \<and> file_after (main w) = NotJson"
    if f: "state_file w = NotJson"
  proof (cases "snapshot_of w")
    case None
    from main_no_page [OF None] f show ?thesis by simp
  next
    case (Some x)
    obtain t ids_now count_now where x: "x = (t, ids_now, count_now)" by (cases x)
    have l: "load_state (state_file w) = Inl JSONDecodeError" by (simp add: f load_state_def)
    from Some x have s: "snapshot_of w = Some (t, ids_now, count_now)" by simp
    from main_load_fails [OF s l] snapshot_of_quiet [OF s] f show ?thesis by simp
  qed
  then show ?thesis by (simp add: load_state_def default_state_def)
qed

text \<open>Witness of C8: a run on a state file that is not JSON fails and leaves the file alone.\<close>

theorem load_state_cases_witness:
  "state_file (example_world [''7''] (Some 1) True NotJson) = NotJson \<and>
   result (main (example_world [''7''] (Some 1) True NotJson)) = Inl JSONDecodeError \<and>
   file_after (main (example_world [''7''] (Some 1) True NotJson)) = NotJson"
proof -
  have h: "state_file (example_world [''7''] (Some 1) True NotJson) = NotJson"
    by (simp add: example_world_def)
  from load_state_cases [of _ "example_world [''7''] (Some 1) True NotJson"] h
  have "file_after (main (example_world [''7''] (Some 1) True NotJson)) = NotJson" by blast
  moreover have "result (main (example_world [''7''] (Some 1) True NotJson)) = Inl JSONDecodeError"
    by (simp add: run_eval)
  ultimately show ?thesis using h by simp
qed

text \<open>
  C8 as stated fails: a JSON object without the \<open>initialized\<close> field, and a JSON value
  that is not an object, do not fit the schema, and \<open>load_state\<close> returns both.
\<close>

theorem load_state_accepts_any_json:
  "\<not> parses_to_schema (Json (Dict partial_state)) \<and>
   load_state (Json (Dict partial_state)) = Inr (Dict partial_state) \<and>
   \<not> parses_to_schema (Json NonDict) \<and> load_state (Json NonDict) = Inr NonDict"
  by (simp add: parses_to_schema_def load_state_def partial_state_def)

text \<open>
  The run that loads the object without \<open>initialized\<close> takes it for a first run: the stored
  id 5 is replaced by the page's ids and only the confirmation message is sent.
\<close>

lemma partial_state_is_reset:
  "main (example_world [''7''] (Some 1) True (Json (Dict partial_state))) =
     \<lparr>trace = [HttpGet,
               SaveState \<lparr>initialized = Some True, seen_ids = Some [''7''],
                          last_count = Some (Some 1), last_checked_epoch = Some 1000\<rparr>,
               TgSend (baseline_msg (Some 1) [''7''])],
      result = Inr (),
      file_after = Json (Dict \<lparr>initialized = Some True, seen_ids = Some [''7''],
                          last_count = Some (Some 1), last_checked_epoch = Some 1000\<rparr>)\<rparr>"
  by (simp add: run_eval int_eval str_eval msg_eval partial_state_def)

subsection \<open>C9: what every save writes\<close>

text \<open>
  C9: every state that any run saves, in the first-run branch and in the update branch
  alike, has a \<open>seen_ids\<close> list without duplicates that is sorted in ascending numeric
  order.
\<close>

theorem saved_seen_ids_sorted:
  "st \<in> set (saves (trace (main w))) \<Longrightarrow>
     \<exists>ids. seen_ids st = Some ids \<and> distinct ids \<and> sorted_wrt num_le ids"
proof -
  assume "st \<in> set (saves (trace (main w)))"
  from main_saves [OF this] obtain t ids_now count_now state ids
    where s: "snapshot_of w = Some (t, ids_now, count_now)"
      and ok: "sorted_ids ids_now = Inr ids"
      and st: "st = stored (state\<lparr>initialized := Some True\<rparr>) ids count_now (clock w)"
    by blast
  from snapshot_of_quiet [OF s] have "distinct ids_now" by simp
  with sorted_ids_Inr [OF ok] have "distinct ids" and "sorted_wrt num_le ids" by simp_all
  with st show ?thesis by (simp add: stored_fields)
qed

text \<open>
  Witness of C9: a first run on a page that links 9, 12, 07 and 9 again saves the list
  07, 9, 12.
\<close>

theorem saved_seen_ids_sorted_witness:
  "saves (trace (main (example_world [''9'', ''12'', ''07'', ''9''] (Some 3) True NoFile))) =
     [\<lparr>initialized = Some True, seen_ids = Some [''07'', ''9'', ''12''],
       last_count = Some (Some 3), last_checked_epoch = Some 1000\<rparr>] \<and>
   distinct [''07'', ''9'', ''12''] \<and> sorted_wrt num_le [''07'', ''9'', ''12'']"
proof -
  let ?st = "\<lparr>initialized = Some True, seen_ids = Some [''07'', ''9'', ''12''],
       last_count = Some (Some 3), last_checked_epoch = Some 1000\<rparr>"
  have e: "saves (trace (main (example_world [''9'', ''12'', ''07'', ''9''] (Some 3) True NoFile))) = [?st]"
    by (simp add: run_eval int_eval)
  then have "?st \<in> set (saves (trace (main (example_world [''9'', ''12'', ''07'', ''9''] (Some 3) True NoFile))))"
    by simp
  from saved_seen_ids_sorted [OF this]
  have "distinct [''07'', ''9'', ''12''] \<and> sorted_wrt num_le [''07'', ''9'', ''12'']" by simp
  with e show ?thesis by simp
qed

subsection \<open>C10: identifiers that \<open>int\<close> rejects\<close>




end
